theory Spec2Isabelle
  imports Main "HOL-Library.Word"
begin

section \<open>Unicode-safe image reading and writing (modules/__init__.py)\<close>

text \<open>
  The module holds two wrappers around OpenCV and NumPy:
  \<^verbatim>\<open>
  def imread_unicode(path, flags=cv2.IMREAD_COLOR):
      return cv2.imdecode(np.fromfile(path, dtype=np.uint8), flags)

  def imwrite_unicode(path, img, params=None):
      root, ext = os.path.splitext(path)
      if not ext:
          ext = ".png"
          path = path + ext
      result, encoded_img = cv2.imencode(ext, img, params if params is not None else [])
      if result:
          encoded_img.tofile(path)
      return bool(result)
  \<close>
  The wrappers are embedded as functions of an environment that supplies the four
  external primitives (\<open>np.fromfile\<close>, \<open>cv2.imdecode\<close>, \<open>cv2.imencode\<close>,
  \<open>ndarray.tofile\<close>). Every primitive may raise; an exception is the \<open>Inl\<close> branch of a
  sum and propagates, since neither wrapper has a \<open>try\<close>. Each call of a primitive is
  recorded, with its arguments, in the order the source makes it.
\<close>

subsection \<open>Data\<close>

text \<open>A Python \<open>str\<close> is a sequence of Unicode code points.\<close>

type_synonym uchar = nat
type_synonym ustring = "uchar list"

definition ustr :: "string \<Rightarrow> ustring" where
  "ustr s = map of_char s"

type_synonym byte = "8 word"

text \<open>An image: a NumPy array, by its shape and its samples in row-major order.\<close>

record ndarray =
  shape :: "nat list"
  samples :: "byte list"

text \<open>Exceptions the external primitives raise.\<close>

datatype py_exception = FileNotFoundError | PermissionError | ValueError | CvError

text \<open>\<open>os.path\<close> is \<open>posixpath\<close> or \<open>ntpath\<close>, by platform.\<close>

datatype platform = Posix | Nt

text \<open>The calls a wrapper makes to the external primitives, with their arguments.\<close>

datatype call =
    Fromfile ustring
  | Imdecode "byte list" int
  | Imencode ustring ndarray "int list"
  | Tofile "byte list" ustring

text \<open>
  The environment. \<open>'fs\<close> is the state of the file system. \<open>np_fromfile\<close> reads a whole
  file or raises. \<open>tofile\<close> leaves a new file-system state and either returns or raises
  (a write that raises may still have created or truncated the file).
  The codec works in memory only.
\<close>

record 'fs env =
  os_name :: platform
  np_fromfile :: "ustring \<Rightarrow> 'fs \<Rightarrow> py_exception + byte list"
  cv2_imdecode :: "byte list \<Rightarrow> int \<Rightarrow> py_exception + ndarray option"
  cv2_imencode :: "ustring \<Rightarrow> ndarray \<Rightarrow> int list \<Rightarrow> py_exception + bool \<times> byte list"
  tofile :: "byte list \<Rightarrow> ustring \<Rightarrow> 'fs \<Rightarrow> py_exception option \<times> 'fs"

text \<open>What a call of a wrapper leaves: the primitive calls made, the value returned or the
  exception raised, and the file system afterwards.\<close>

record ('a, 'fs) outcome =
  calls :: "call list"
  ret :: "py_exception + 'a"
  fs_after :: 'fs

definition IMREAD_COLOR :: int where
  "IMREAD_COLOR = 1"

subsection \<open>\<open>os.path.splitext\<close>\<close>

text \<open>
  \<open>os.path.splitext\<close> belongs to the Python standard library; it is embedded from
  \<open>genericpath._splitext\<close>, which \<open>posixpath.splitext\<close> calls with
  \<open>sep = '/'\<close>, \<open>altsep = None\<close> and \<open>ntpath.splitext\<close> with \<open>sep = '\\'\<close>,
  \<open>altsep = '/'\<close>:
  \<^verbatim>\<open>
  def _splitext(p, sep, altsep, extsep):
      sepIndex = p.rfind(sep)
      if altsep:
          altsepIndex = p.rfind(altsep)
          sepIndex = max(sepIndex, altsepIndex)
      dotIndex = p.rfind(extsep)
      if dotIndex > sepIndex:
          # skip all leading dots
          filenameIndex = sepIndex + 1
          while filenameIndex < dotIndex:
              if p[filenameIndex:filenameIndex+1] != extsep:
                  return p[:dotIndex], p[dotIndex:]
              filenameIndex += 1
      return p, p[:0]
  \<close>
\<close>

text \<open>\<open>str.rfind\<close> of a one-character string: the highest index, or \<open>-1\<close>.\<close>

fun rfind :: "ustring \<Rightarrow> uchar \<Rightarrow> int" where
  "rfind [] c = - 1"
| "rfind (x # xs) c =
     (let r = rfind xs c in if 0 \<le> r then r + 1 else if x = c then 0 else - 1)"

text \<open>A Python slice \<open>p[i:j]\<close>: negative indices count from the end, both are clamped.\<close>

definition slice_index :: "'a list \<Rightarrow> int \<Rightarrow> nat" where
  "slice_index p i =
     (let n = int (length p) in nat (if i < 0 then max 0 (n + i) else min i n))"

definition slice :: "'a list \<Rightarrow> int \<Rightarrow> int \<Rightarrow> 'a list" where
  "slice p i j = take (slice_index p j - slice_index p i) (drop (slice_index p i) p)"

text \<open>The \<open>while\<close> loop: \<open>Some\<close> is its early \<open>return\<close>, \<open>None\<close> its normal end.\<close>

function splitext_loop :: "ustring \<Rightarrow> uchar \<Rightarrow> int \<Rightarrow> int \<Rightarrow> (ustring \<times> ustring) option" where
  "splitext_loop p extsep filenameIndex dotIndex =
     (if filenameIndex < dotIndex then
        (if slice p filenameIndex (filenameIndex + 1) \<noteq> [extsep]
         then Some (slice p 0 dotIndex, slice p dotIndex (int (length p)))
         else splitext_loop p extsep (filenameIndex + 1) dotIndex)
      else None)"
  by pat_completeness auto
termination
  by (relation "measure (\<lambda>(p, extsep, filenameIndex, dotIndex). nat (dotIndex - filenameIndex))") auto

declare splitext_loop.simps [simp del]

definition genericpath_splitext ::
    "ustring \<Rightarrow> uchar \<Rightarrow> uchar option \<Rightarrow> uchar \<Rightarrow> ustring \<times> ustring" where
  "genericpath_splitext p sep altsep extsep =
     (let sepIndex = rfind p sep;
          sepIndex = (case altsep of None \<Rightarrow> sepIndex
                      | Some a \<Rightarrow> max sepIndex (rfind p a));
          dotIndex = rfind p extsep
      in if dotIndex > sepIndex then
           (case splitext_loop p extsep (sepIndex + 1) dotIndex of
              Some r \<Rightarrow> r
            | None \<Rightarrow> (p, []))
         else (p, []))"

definition slash :: uchar where "slash = of_char (CHR ''/'')"
definition backslash :: uchar where "backslash = 92"
definition dot :: uchar where "dot = of_char (CHR ''.'')"

fun splitext :: "platform \<Rightarrow> ustring \<Rightarrow> ustring \<times> ustring" where
  "splitext Posix p = genericpath_splitext p slash None dot"
| "splitext Nt p = genericpath_splitext p backslash (Some slash) dot"

subsection \<open>The wrappers\<close>

definition imread_unicode ::
    "'fs env \<Rightarrow> ustring \<Rightarrow> int \<Rightarrow> 'fs \<Rightarrow> (ndarray option, 'fs) outcome" where
  "imread_unicode E path flags fs =
     (case np_fromfile E path fs of
        Inl e \<Rightarrow> \<lparr>calls = [Fromfile path], ret = Inl e, fs_after = fs\<rparr>
      | Inr buf \<Rightarrow>
          \<lparr>calls = [Fromfile path, Imdecode buf flags],
           ret = cv2_imdecode E buf flags, fs_after = fs\<rparr>)"

text \<open>Lines 12 to 15 of the writer: the extension given to the encoder and the path
  written to.\<close>

definition default_ext :: "platform \<Rightarrow> ustring \<Rightarrow> ustring \<times> ustring" where
  "default_ext os path =
     (let (root, ext) = splitext os path
      in if ext = [] then (ustr ''.png'', path @ ustr ''.png'') else (ext, path))"

definition imwrite_unicode ::
    "'fs env \<Rightarrow> ustring \<Rightarrow> ndarray \<Rightarrow> int list option \<Rightarrow> 'fs \<Rightarrow> (bool, 'fs) outcome" where
  "imwrite_unicode E path img params fs =
     (let (ext, path) = default_ext (os_name E) path;
          ps = (case params of None \<Rightarrow> [] | Some ps \<Rightarrow> ps)
      in case cv2_imencode E ext img ps of
           Inl e \<Rightarrow> \<lparr>calls = [Imencode ext img ps], ret = Inl e, fs_after = fs\<rparr>
         | Inr (result, encoded_img) \<Rightarrow>
             if result then
               (case tofile E encoded_img path fs of
                  (Some e, fs') \<Rightarrow>
                    \<lparr>calls = [Imencode ext img ps, Tofile encoded_img path],
                     ret = Inl e, fs_after = fs'\<rparr>
                | (None, fs') \<Rightarrow>
                    \<lparr>calls = [Imencode ext img ps, Tofile encoded_img path],
                     ret = Inr True, fs_after = fs'\<rparr>)
             else \<lparr>calls = [Imencode ext img ps], ret = Inr False, fs_after = fs\<rparr>)"

text \<open>The arguments handed to the encoder for \<open>params\<close> (line 16).\<close>

definition encoder_params :: "int list option \<Rightarrow> int list" where
  "encoder_params params = (case params of None \<Rightarrow> [] | Some ps \<Rightarrow> ps)"

text \<open>The encode step reports success: \<open>cv2.imencode\<close> returns with a true \<open>result\<close>.\<close>

definition encode_ok :: "'fs env \<Rightarrow> ustring \<Rightarrow> ndarray \<Rightarrow> int list \<Rightarrow> bool" where
  "encode_ok E ext img ps =
     (case cv2_imencode E ext img ps of Inl e \<Rightarrow> False | Inr (result, buf) \<Rightarrow> result)"

text \<open>The characters \<open>splitext\<close> treats as directory separators on a platform.\<close>

fun is_sep :: "platform \<Rightarrow> uchar \<Rightarrow> bool" where
  "is_sep Posix c = (c = slash)"
| "is_sep Nt c = (c = backslash \<or> c = slash)"

subsection \<open>A concrete environment\<close>

text \<open>
  The examples below run the wrappers in a small environment: files in memory, keyed by
  path, and an uncompressed codec. It stands in for NumPy and OpenCV in the examples only;
  no theorem about the wrappers depends on it. It follows these behaviours of the
  libraries:
  \<^item> opening a path with an embedded NUL raises \<open>ValueError\<close>, and reading a missing file
    raises \<open>FileNotFoundError\<close>;
  \<^item> \<open>cv2.imencode\<close> raises \<open>cv2.error\<close> for an extension it has no encoder for and for
    an image that is empty or has a number of channels other than 1, 3 or 4;
  \<^item> \<open>cv2.imdecode\<close> raises \<open>cv2.error\<close> on an empty buffer and returns its sentinel
    \<open>None\<close> on other bytes that are no image;
  \<^item> the mode \<open>IMREAD_COLOR\<close> always yields three channels, \<open>IMREAD_GRAYSCALE\<close> one
    (a two-dimensional array), \<open>IMREAD_UNCHANGED\<close> what the file holds.
  The directories of a path, the encoder's parameters and the other decoding flags are
  not modelled, and the sample values after a change of channels are indicative only.
\<close>

type_synonym mem_fs = "ustring \<rightharpoonup> byte list"

definition mem_fromfile :: "ustring \<Rightarrow> mem_fs \<Rightarrow> py_exception + byte list" where
  "mem_fromfile path fs =
     (if 0 \<in> set path then Inl ValueError
      else case fs path of None \<Rightarrow> Inl FileNotFoundError | Some buf \<Rightarrow> Inr buf)"

definition mem_tofile :: "byte list \<Rightarrow> ustring \<Rightarrow> mem_fs \<Rightarrow> py_exception option \<times> mem_fs" where
  "mem_tofile buf path fs =
     (if 0 \<in> set path then (Some ValueError, fs) else (None, fs(path \<mapsto> buf)))"

definition IMREAD_UNCHANGED :: int where
  "IMREAD_UNCHANGED = - 1"

definition IMREAD_GRAYSCALE :: int where
  "IMREAD_GRAYSCALE = 0"

text \<open>Extensions the stand-in encoder knows.\<close>

definition known_exts :: "ustring list" where
  "known_exts =
     map ustr [''.png'', ''.jpg'', ''.jpeg'', ''.jpe'', ''.bmp'', ''.dib'', ''.tif'', ''.tiff'',
       ''.webp'', ''.jp2'']"

text \<open>An image the encoder takes: two or three dimensions, no dimension zero, 1, 3 or 4
  channels, as many samples as the shape says.\<close>

definition encodable :: "ndarray \<Rightarrow> bool" where
  "encodable img =
     ((case shape img of
         [h, w] \<Rightarrow> 0 < h \<and> 0 < w
       | [h, w, c] \<Rightarrow> 0 < h \<and> 0 < w \<and> (c = 1 \<or> c = 3 \<or> c = 4)
       | _ \<Rightarrow> False) \<and>
      length (samples img) = prod_list (shape img))"

text \<open>The container: the number of dimensions, each dimension in base 128 (seven bits to
  a byte, the top bit set on every byte but the last), then the samples.\<close>

function leb128 :: "nat \<Rightarrow> byte list" where
  "leb128 n = (if n < 128 then [of_nat n] else of_nat (128 + n mod 128) # leb128 (n div 128))"
  by pat_completeness auto
termination
  by (relation "measure (\<lambda>n. n)") auto

declare leb128.simps [simp del]

fun varint :: "byte list \<Rightarrow> (nat \<times> byte list) option" where
  "varint [] = None"
| "varint (b # bs) =
     (if unat b < 128 then Some (unat b, bs)
      else case varint bs of
             None \<Rightarrow> None
           | Some (n, rest) \<Rightarrow> Some (unat b - 128 + 128 * n, rest))"

definition raw_imencode ::
    "ustring \<Rightarrow> ndarray \<Rightarrow> int list \<Rightarrow> py_exception + bool \<times> byte list" where
  "raw_imencode ext img ps =
     (if ext \<in> set known_exts \<and> encodable img
      then Inr (True, of_nat (length (shape img)) # concat (map leb128 (shape img)) @ samples img)
      else Inl CvError)"

text \<open>The header of a container: height, width, channels and the samples that follow.\<close>

definition parse_header :: "byte list \<Rightarrow> (nat \<times> nat \<times> nat \<times> byte list) option" where
  "parse_header buf =
     (case buf of
        [] \<Rightarrow> None
      | n # rest \<Rightarrow>
          (case varint rest of
             None \<Rightarrow> None
           | Some (h, r1) \<Rightarrow>
               (case varint r1 of
                  None \<Rightarrow> None
                | Some (w, r2) \<Rightarrow>
                    if unat n = 2 then Some (h, w, 1, r2)
                    else if unat n = 3 then
                      (case varint r2 of
                         None \<Rightarrow> None
                       | Some (c, r3) \<Rightarrow> Some (h, w, c, r3))
                    else None)))"

fun drop_alpha :: "byte list \<Rightarrow> byte list" where
  "drop_alpha (b # g # r # a # rest) = b # g # r # drop_alpha rest"
| "drop_alpha rest = []"

fun bgr_to_gray :: "byte list \<Rightarrow> byte list" where
  "bgr_to_gray (b # g # r # rest) =
     of_nat ((unat b * 1868 + unat g * 9617 + unat r * 4899 + 8192) div 16384) # bgr_to_gray rest"
| "bgr_to_gray rest = []"

definition to_bgr :: "nat \<Rightarrow> byte list \<Rightarrow> byte list" where
  "to_bgr c smp =
     (if c = 1 then concat (map (\<lambda>s. [s, s, s]) smp)
      else if c = 3 then smp
      else drop_alpha smp)"

definition to_gray :: "nat \<Rightarrow> byte list \<Rightarrow> byte list" where
  "to_gray c smp =
     (if c = 1 then smp
      else if c = 3 then bgr_to_gray smp
      else bgr_to_gray (drop_alpha smp))"

definition raw_imdecode :: "byte list \<Rightarrow> int \<Rightarrow> py_exception + ndarray option" where
  "raw_imdecode buf flags =
     (if buf = [] then Inl CvError
      else case parse_header buf of
             None \<Rightarrow> Inr None
           | Some (h, w, c, smp) \<Rightarrow>
               if h = 0 \<or> w = 0 \<or> (c \<noteq> 1 \<and> c \<noteq> 3 \<and> c \<noteq> 4) \<or> length smp \<noteq> h * w * c
               then Inr None
               else if flags = IMREAD_UNCHANGED
               then Inr (Some \<lparr>shape = (if c = 1 then [h, w] else [h, w, c]), samples = smp\<rparr>)
               else if flags mod 2 = 1
               then Inr (Some \<lparr>shape = [h, w, 3], samples = to_bgr c smp\<rparr>)
               else Inr (Some \<lparr>shape = [h, w], samples = to_gray c smp\<rparr>))"

definition mem_env :: "platform \<Rightarrow> mem_fs env" where
  "mem_env os =
     \<lparr>os_name = os, np_fromfile = mem_fromfile, cv2_imdecode = raw_imdecode,
      cv2_imencode = raw_imencode, tofile = mem_tofile\<rparr>"

text \<open>
  An encoder that reports failure on every input: the outcome of \<open>cv2.imencode\<close> in which
  \<open>result\<close> is false, which line 17 of the writer tests. It serves where an example needs
  that outcome, whatever input makes OpenCV produce it.
\<close>

definition refusing_imencode ::
    "ustring \<Rightarrow> ndarray \<Rightarrow> int list \<Rightarrow> py_exception + bool \<times> byte list" where
  "refusing_imencode ext img ps = Inr (False, [])"

definition refusing_env :: "platform \<Rightarrow> mem_fs env" where
  "refusing_env os =
     \<lparr>os_name = os, np_fromfile = mem_fromfile, cv2_imdecode = raw_imdecode,
      cv2_imencode = refusing_imencode, tofile = mem_tofile\<rparr>"

text \<open>The image of the repository's test: \<open>np.zeros((h, w, c), dtype=np.uint8)\<close>.\<close>

definition zeros :: "nat list \<Rightarrow> ndarray" where
  "zeros shp = \<lparr>shape = shp, samples = replicate (prod_list shp) 0\<rparr>"

text \<open>The path of the repository's test (five Japanese characters, no extension) and a
  path with an embedded NUL, \<open>"a\0.png"\<close>.\<close>

definition test_path :: ustring where
  "test_path = [12486, 12473, 12488, 30011, 20687]"

definition nul_path :: ustring where
  "nul_path = [97, 0, 46, 112, 110, 103]"

text \<open>A path relative to a Windows drive, \<open>"C:.config"\<close>.\<close>

definition drive_path :: ustring where
  "drive_path = ustr ''C:.config''"

section \<open>Properties\<close>

subsection \<open>Unfolding the writer\<close>

lemma default_ext_no_ext:
  "snd (splitext os path) = [] \<Longrightarrow> default_ext os path = (ustr ''.png'', path @ ustr ''.png'')"
  by (cases "splitext os path") (simp add: default_ext_def)

lemma default_ext_has_ext:
  "snd (splitext os path) \<noteq> [] \<Longrightarrow> default_ext os path = (snd (splitext os path), path)"
  by (cases "splitext os path") (simp add: default_ext_def)

lemma imwrite_unicode_unfold:
  assumes "default_ext (os_name E) path = (ext, p)"
  shows "imwrite_unicode E path img params fs =
     (case cv2_imencode E ext img (encoder_params params) of
        Inl e \<Rightarrow> \<lparr>calls = [Imencode ext img (encoder_params params)], ret = Inl e, fs_after = fs\<rparr>
      | Inr (result, buf) \<Rightarrow>
          if result then
            \<lparr>calls = [Imencode ext img (encoder_params params), Tofile buf p],
             ret = (case fst (tofile E buf p fs) of Some e \<Rightarrow> Inl e | None \<Rightarrow> Inr True),
             fs_after = snd (tofile E buf p fs)\<rparr>
          else \<lparr>calls = [Imencode ext img (encoder_params params)], ret = Inr False, fs_after = fs\<rparr>)"
  using assms
  by (simp add: imwrite_unicode_def encoder_params_def Let_def
           split: sum.splits prod.splits option.splits)

subsection \<open>Evaluating the concrete environment\<close>

lemmas splitext_eval =
  genericpath_splitext_def splitext_loop.simps slice_def slice_index_def
  slash_def backslash_def dot_def ustr_def Let_def

lemmas mem_env_eval =
  mem_env_def mem_fromfile_def mem_tofile_def raw_imencode_def raw_imdecode_def
  zeros_def IMREAD_COLOR_def IMREAD_UNCHANGED_def encoder_params_def
  known_exts_def encodable_def leb128.simps parse_header_def to_bgr_def to_gray_def

lemma test_path_no_ext: "snd (splitext Posix test_path) = []"
  by (simp add: test_path_def splitext_eval)

lemma mem_env_os [simp]: "os_name (mem_env os) = os"
  by (simp add: mem_env_def)

lemma default_ext_test_path: "default_ext Posix test_path = (ustr ''.png'', test_path @ ustr ''.png'')"
  using test_path_no_ext by (rule default_ext_no_ext)

lemma default_ext_nul_path: "default_ext Posix nul_path = (ustr ''.png'', nul_path)"
  by (simp add: default_ext_def nul_path_def splitext_eval)

lemma default_ext_xyz: "default_ext Posix (ustr ''a.xyz'') = (ustr ''.xyz'', ustr ''a.xyz'')"
  by (simp add: default_ext_def splitext_eval)

lemma refusing_env_os [simp]: "os_name (refusing_env os) = os"
  by (simp add: refusing_env_def)

lemma refusing_env_imencode [simp]:
  "cv2_imencode (refusing_env os) ext img ps = Inr (False, [])"
  by (simp add: refusing_env_def refusing_imencode_def)

lemma raw_imencode_test_image:
  "cv2_imencode (mem_env os) (ustr ''.png'') (zeros [10, 10, 3]) ps =
     Inr (True, 3 # 10 # 10 # 3 # replicate 300 0)"
  by (simp add: mem_env_eval)

lemma mem_read_after_write:
  "tofile (mem_env os) buf p fs = (None, fs') \<Longrightarrow> np_fromfile (mem_env os) p fs' = Inr buf"
  by (auto simp: mem_env_def mem_tofile_def mem_fromfile_def split: if_splits)

subsection \<open>Facts about \<open>splitext\<close>\<close>

lemma rfind_lt_length: "rfind p c < int (length p)"
  by (induction p) (auto simp: Let_def)

lemma rfind_notin: "c \<notin> set p \<Longrightarrow> rfind p c = - 1"
  by (induction p) (auto simp: Let_def)

lemma rfind_append_notin: "c \<notin> set q \<Longrightarrow> rfind (p @ q) c = rfind p c"
  by (induction p) (auto simp: Let_def rfind_notin)

lemma rfind_snoc: "rfind (p @ [c]) c = int (length p)"
  by (induction p) (auto simp: Let_def)

lemma rfind_last: "p = [] \<or> last p = c \<Longrightarrow> rfind p c = int (length p) - 1"
proof (cases p rule: rev_cases)
  case Nil
  then show ?thesis by simp
next
  case (snoc q x)
  assume "p = [] \<or> last p = c"
  with snoc have "x = c" by simp
  with snoc show ?thesis by (simp add: rfind_snoc)
qed

lemma slice_one: "0 \<le> i \<Longrightarrow> nat i < length p \<Longrightarrow> slice p i (i + 1) = [p ! nat i]"
proof -
  assume a: "0 \<le> i" "nat i < length p"
  then have "slice_index p i = nat i" "slice_index p (i + 1) = nat i + 1"
    by (auto simp: slice_index_def Let_def)
  with a show ?thesis
    by (simp add: slice_def take_Suc_conv_app_nth [of 0, simplified] hd_drop_conv_nth
             take_Suc)
qed

lemma splitext_loop_all_dots:
  "(\<And>i. f \<le> i \<Longrightarrow> i < d \<Longrightarrow> 0 \<le> i \<and> nat i < length p \<and> p ! nat i = extsep)
   \<Longrightarrow> splitext_loop p extsep f d = None"
proof (induction p extsep f d rule: splitext_loop.induct)
  case (1 p extsep filenameIndex dotIndex)
  show ?case
  proof (cases "filenameIndex < dotIndex")
    case True
    with "1.prems" [of filenameIndex]
    have here: "slice p filenameIndex (filenameIndex + 1) = [extsep]"
      by (simp add: slice_one)
    have "splitext_loop p extsep (filenameIndex + 1) dotIndex = None"
      using True here "1.prems" by (intro "1.IH") auto
    with True here show ?thesis
      by (subst splitext_loop.simps) simp
  next
    case False
    then show ?thesis by (subst splitext_loop.simps) simp
  qed
qed

lemma genericpath_splitext_leading_dots:
  assumes sepI: "sepIndex = int (length pre) - 1"
    and k: "0 < k" and name: "extsep \<notin> set name"
  shows "(let dotIndex = rfind (pre @ replicate k extsep @ name) extsep
          in if dotIndex > sepIndex then
               (case splitext_loop (pre @ replicate k extsep @ name) extsep (sepIndex + 1) dotIndex of
                  Some r \<Rightarrow> r
                | None \<Rightarrow> (pre @ replicate k extsep @ name, []))
             else (pre @ replicate k extsep @ name, []))
         = (pre @ replicate k extsep @ name, [])"
proof -
  let ?p = "pre @ replicate k extsep @ name"
  from k obtain j where j: "k = Suc j" by (cases k) auto
  have "?p = ((pre @ replicate j extsep) @ [extsep]) @ name"
    by (simp add: j replicate_append_same)
  then have "rfind ?p extsep = rfind ((pre @ replicate j extsep) @ [extsep]) extsep"
    using name rfind_append_notin by metis
  then have dotI: "rfind ?p extsep = int (length pre) + int j"
    by (simp only: rfind_snoc) simp
  have "splitext_loop ?p extsep (sepIndex + 1) (int (length pre) + int j) = None"
  proof (rule splitext_loop_all_dots)
    fix i :: int
    assume "sepIndex + 1 \<le> i" "i < int (length pre) + int j"
    with sepI have b: "int (length pre) \<le> i" "i < int (length pre) + int j" by auto
    define m where "m = nat i - length pre"
    from b have m: "nat i = length pre + m" "m < j"
      unfolding m_def by linarith+
    from m j have mk: "m < k" by simp
    with m have "?p ! nat i = extsep"
      by (simp add: nth_append)
    with b m show "0 \<le> i \<and> nat i < length ?p \<and> ?p ! nat i = extsep"
      by (simp add: j)
  qed
  with dotI sepI show ?thesis
    by (simp add: Let_def)
qed

lemma not_sep_dot: "\<not> is_sep os dot"
  by (cases os) (simp_all add: slash_def backslash_def dot_def)

lemma splitext_leading_dots:
  assumes pre: "pre = [] \<or> is_sep os (last pre)"
    and k: "0 < k"
    and name: "dot \<notin> set name" "\<forall>c \<in> set name. \<not> is_sep os c"
  shows "splitext os (pre @ replicate k dot @ name) = (pre @ replicate k dot @ name, [])"
proof -
  let ?p = "pre @ replicate k dot @ name"
  have tail: "\<And>c. is_sep os c \<Longrightarrow> c \<notin> set (replicate k dot @ name)"
    using name(2) not_sep_dot [of os] by auto
  have cut: "\<And>c. is_sep os c \<Longrightarrow> rfind ?p c = rfind pre c"
    using tail rfind_append_notin by blast
  show ?thesis
  proof (cases os)
    case Posix
    from pre Posix have "pre = [] \<or> last pre = slash" by simp
    then have "rfind pre slash = int (length pre) - 1" by (rule rfind_last)
    with cut [of slash] Posix have "rfind ?p slash = int (length pre) - 1" by simp
    from genericpath_splitext_leading_dots [OF this k name(1)] Posix
    show ?thesis by (simp add: genericpath_splitext_def)
  next
    case Nt
    have le: "rfind pre backslash \<le> int (length pre) - 1" "rfind pre slash \<le> int (length pre) - 1"
      using rfind_lt_length [of pre backslash] rfind_lt_length [of pre slash] by simp_all
    from pre Nt have "(pre = [] \<or> last pre = backslash) \<or> (pre = [] \<or> last pre = slash)"
      by auto
    then have "rfind pre backslash = int (length pre) - 1 \<or> rfind pre slash = int (length pre) - 1"
      using rfind_last by blast
    with le have "max (rfind pre backslash) (rfind pre slash) = int (length pre) - 1"
      by linarith
    with cut [of slash] cut [of backslash] Nt
    have "max (rfind ?p backslash) (rfind ?p slash) = int (length pre) - 1" by simp
    from genericpath_splitext_leading_dots [OF this k name(1)] Nt
    show ?thesis by (simp add: genericpath_splitext_def)
  qed
qed

subsection \<open>The default extension\<close>

text \<open>
  Claim C1. When \<open>os.path.splitext\<close> finds no extension in \<open>path\<close>, the writer appends
  \<open>.png\<close>: the encoder is called with the extension \<open>.png\<close>, and the only write the
  writer makes, after a successful encode, goes to \<open>path + ".png"\<close>, which differs from
  \<open>path\<close>; the file system afterwards is what that one write leaves. When the encode
  fails or raises, nothing is written.
\<close>

theorem imwrite_unicode_default_png:
  assumes "snd (splitext (os_name E) path) = []"
  shows "path @ ustr ''.png'' \<noteq> path \<and>
     (case cv2_imencode E (ustr ''.png'') img (encoder_params params) of
        Inr (True, buf) \<Rightarrow>
          calls (imwrite_unicode E path img params fs) =
            [Imencode (ustr ''.png'') img (encoder_params params),
             Tofile buf (path @ ustr ''.png'')] \<and>
          fs_after (imwrite_unicode E path img params fs) =
            snd (tofile E buf (path @ ustr ''.png'') fs)
      | _ \<Rightarrow>
          calls (imwrite_unicode E path img params fs) =
            [Imencode (ustr ''.png'') img (encoder_params params)] \<and>
          fs_after (imwrite_unicode E path img params fs) = fs)"
proof -
  have "default_ext (os_name E) path = (ustr ''.png'', path @ ustr ''.png'')"
    using assms by (rule default_ext_no_ext)
  then show ?thesis
    by (simp add: imwrite_unicode_unfold ustr_def split: sum.splits prod.splits bool.splits)
qed

text \<open>The repository's test: the image goes to \<open>test_path + ".png"\<close>, and no file
  appears at \<open>test_path\<close>.\<close>

theorem imwrite_unicode_default_png_witness:
  "snd (splitext Posix test_path) = [] \<and>
   ret (imwrite_unicode (mem_env Posix) test_path (zeros [10, 10, 3]) None Map.empty) = Inr True \<and>
   calls (imwrite_unicode (mem_env Posix) test_path (zeros [10, 10, 3]) None Map.empty) =
     [Imencode (ustr ''.png'') (zeros [10, 10, 3]) [],
      Tofile (3 # 10 # 10 # 3 # replicate 300 0) (test_path @ ustr ''.png'')] \<and>
   fs_after (imwrite_unicode (mem_env Posix) test_path (zeros [10, 10, 3]) None Map.empty)
       (test_path @ ustr ''.png'') = Some (3 # 10 # 10 # 3 # replicate 300 0) \<and>
   fs_after (imwrite_unicode (mem_env Posix) test_path (zeros [10, 10, 3]) None Map.empty)
       test_path = None"
proof -
  have h: "snd (splitext (os_name (mem_env Posix)) test_path) = []"
    using test_path_no_ext by (simp add: mem_env_def)
  have d: "default_ext (os_name (mem_env Posix)) test_path =
      (ustr ''.png'', test_path @ ustr ''.png'')"
    using h by (rule default_ext_no_ext)
  have r: "ret (imwrite_unicode (mem_env Posix) test_path (zeros [10, 10, 3]) None Map.empty) =
      Inr True"
    by (simp add: imwrite_unicode_unfold [OF d]) (simp add: mem_env_eval test_path_def ustr_def)
  show ?thesis
    using imwrite_unicode_default_png [OF h, of "zeros [10, 10, 3]" None Map.empty]
      r test_path_no_ext
    by (simp add: mem_env_eval test_path_def ustr_def)
qed

subsection \<open>The value returned by the writer\<close>

text \<open>
  Claim C2, as amended. Whenever the writer returns a value, the value is the encoder's
  \<open>result\<close>. When the encoder reports success, the writer returns \<open>True\<close> if the
  byte-write returns, whatever file system the write leaves behind, and raises the write's
  exception if the byte-write raises. When the encoder reports failure, the writer
  returns \<open>False\<close>.
\<close>

theorem imwrite_unicode_return:
  assumes "default_ext (os_name E) path = (ext, p)"
  shows "(\<forall>b. ret (imwrite_unicode E path img params fs) = Inr b \<longrightarrow>
            b = encode_ok E ext img (encoder_params params)) \<and>
         (\<forall>buf. cv2_imencode E ext img (encoder_params params) = Inr (True, buf) \<longrightarrow>
            ret (imwrite_unicode E path img params fs) =
              (case fst (tofile E buf p fs) of None \<Rightarrow> Inr True | Some e \<Rightarrow> Inl e)) \<and>
         (\<forall>buf. cv2_imencode E ext img (encoder_params params) = Inr (False, buf) \<longrightarrow>
            ret (imwrite_unicode E path img params fs) = Inr False)"
  by (auto simp: imwrite_unicode_unfold [OF assms] encode_ok_def
           split: sum.splits prod.splits option.splits if_splits)

text \<open>The repository's test returns \<open>True\<close>; with an encoder that reports failure the
  writer returns \<open>False\<close>.\<close>

theorem imwrite_unicode_return_witness:
  "default_ext Posix test_path = (ustr ''.png'', test_path @ ustr ''.png'') \<and>
   encode_ok (mem_env Posix) (ustr ''.png'') (zeros [10, 10, 3]) [] \<and>
   ret (imwrite_unicode (mem_env Posix) test_path (zeros [10, 10, 3]) None Map.empty) = Inr True \<and>
   cv2_imencode (refusing_env Posix) (ustr ''.png'') (zeros [10, 10, 3]) [] = Inr (False, []) \<and>
   ret (imwrite_unicode (refusing_env Posix) test_path (zeros [10, 10, 3]) None Map.empty) =
     Inr False"
proof -
  have d1: "default_ext (os_name (mem_env Posix)) test_path = (ustr ''.png'', test_path @ ustr ''.png'')"
    by (simp add: default_ext_test_path)
  have d2: "default_ext (os_name (refusing_env Posix)) test_path =
      (ustr ''.png'', test_path @ ustr ''.png'')"
    by (simp add: default_ext_test_path)
  have e1: "cv2_imencode (mem_env Posix) (ustr ''.png'') (zeros [10, 10, 3]) (encoder_params None) =
      Inr (True, 3 # 10 # 10 # 3 # replicate 300 0)"
    by (rule raw_imencode_test_image)
  have w1: "fst (tofile (mem_env Posix) (3 # 10 # 10 # 3 # replicate 300 0)
      (test_path @ ustr ''.png'') Map.empty) = None"
    by (simp add: mem_env_def mem_tofile_def test_path_def ustr_def)
  have e2: "cv2_imencode (refusing_env Posix) (ustr ''.png'') (zeros [10, 10, 3])
      (encoder_params None) = Inr (False, [])"
    by simp
  from imwrite_unicode_return [OF d1, of "zeros [10, 10, 3]" None Map.empty] e1 w1
  have r1: "ret (imwrite_unicode (mem_env Posix) test_path (zeros [10, 10, 3]) None Map.empty) = Inr True"
    by simp
  from imwrite_unicode_return [OF d2, of "zeros [10, 10, 3]" None Map.empty] e2
  have r2: "ret (imwrite_unicode (refusing_env Posix) test_path (zeros [10, 10, 3]) None Map.empty) =
      Inr False"
    by simp
  from e1 have ok: "encode_ok (mem_env Posix) (ustr ''.png'') (zeros [10, 10, 3]) []"
    by (simp add: encode_ok_def encoder_params_def)
  show ?thesis
    using r1 r2 ok default_ext_test_path by simp
qed

text \<open>
  Claim C2 as stated fails where the byte-write raises: for the path \<open>"a\0.png"\<close> the
  encode step reports success, opening the file raises \<open>ValueError\<close>, and the writer
  raises it instead of returning \<open>True\<close>.
\<close>

theorem imwrite_unicode_return_counterexample:
  "encode_ok (mem_env Posix) (ustr ''.png'') (zeros [1, 1, 3]) [] \<and>
   ret (imwrite_unicode (mem_env Posix) nul_path (zeros [1, 1, 3]) None Map.empty) = Inl ValueError \<and>
   ret (imwrite_unicode (mem_env Posix) nul_path (zeros [1, 1, 3]) None Map.empty) \<noteq>
     Inr (encode_ok (mem_env Posix) (ustr ''.png'') (zeros [1, 1, 3]) [])"
proof -
  have "default_ext Posix nul_path = (ustr ''.png'', nul_path)"
    by (simp add: default_ext_def nul_path_def splitext_eval)
  then have d: "default_ext (os_name (mem_env Posix)) nul_path = (ustr ''.png'', nul_path)"
    by (simp add: mem_env_def)
  show ?thesis
    by (simp add: imwrite_unicode_unfold [OF d] encode_ok_def)
       (simp add: mem_env_eval nul_path_def ustr_def)
qed

subsection \<open>An existing extension\<close>

text \<open>
  Claim C3. When \<open>os.path.splitext\<close> finds a non-empty extension in \<open>path\<close>, the writer
  uses the path as it is: the encoder is called with that extension, and the only write,
  after a successful encode, goes to \<open>path\<close> itself.
\<close>

theorem imwrite_unicode_keeps_ext:
  assumes "snd (splitext (os_name E) path) \<noteq> []"
  shows "default_ext (os_name E) path = (snd (splitext (os_name E) path), path) \<and>
     (case cv2_imencode E (snd (splitext (os_name E) path)) img (encoder_params params) of
        Inr (True, buf) \<Rightarrow>
          calls (imwrite_unicode E path img params fs) =
            [Imencode (snd (splitext (os_name E) path)) img (encoder_params params),
             Tofile buf path] \<and>
          fs_after (imwrite_unicode E path img params fs) = snd (tofile E buf path fs)
      | _ \<Rightarrow>
          calls (imwrite_unicode E path img params fs) =
            [Imencode (snd (splitext (os_name E) path)) img (encoder_params params)] \<and>
          fs_after (imwrite_unicode E path img params fs) = fs)"
proof -
  have "default_ext (os_name E) path = (snd (splitext (os_name E) path), path)"
    using assms by (rule default_ext_has_ext)
  then show ?thesis
    by (simp add: imwrite_unicode_unfold split: sum.splits prod.splits bool.splits)
qed

text \<open>Writing to \<open>out/frame.png\<close> creates that file, and none at
  \<open>out/frame.png.png\<close>.\<close>

theorem imwrite_unicode_keeps_ext_witness:
  "snd (splitext Posix (ustr ''out/frame.png'')) = ustr ''.png'' \<and>
   calls (imwrite_unicode (mem_env Posix) (ustr ''out/frame.png'') (zeros [10, 10, 3]) None Map.empty) =
     [Imencode (ustr ''.png'') (zeros [10, 10, 3]) [],
      Tofile (3 # 10 # 10 # 3 # replicate 300 0) (ustr ''out/frame.png'')] \<and>
   fs_after (imwrite_unicode (mem_env Posix) (ustr ''out/frame.png'') (zeros [10, 10, 3]) None Map.empty)
     (ustr ''out/frame.png'') = Some (3 # 10 # 10 # 3 # replicate 300 0) \<and>
   fs_after (imwrite_unicode (mem_env Posix) (ustr ''out/frame.png'') (zeros [10, 10, 3]) None Map.empty)
     (ustr ''out/frame.png.png'') = None"
proof -
  have s: "snd (splitext Posix (ustr ''out/frame.png'')) = ustr ''.png''"
    by (simp add: splitext_eval)
  then have h: "snd (splitext (os_name (mem_env Posix)) (ustr ''out/frame.png'')) \<noteq> []"
    by (simp add: ustr_def)
  have e: "cv2_imencode (mem_env Posix) (ustr ''.png'') (zeros [10, 10, 3]) (encoder_params None) =
      Inr (True, 3 # 10 # 10 # 3 # replicate 300 0)"
    by (simp add: mem_env_eval)
  show ?thesis
    using imwrite_unicode_keeps_ext [OF h, of "zeros [10, 10, 3]" None Map.empty] s e
    by (simp add: encoder_params_def) (simp add: mem_env_eval ustr_def)
qed

subsection \<open>A failed encode\<close>

text \<open>
  Claim C4, as amended. When \<open>cv2.imencode\<close> returns with a false \<open>result\<close>, the writer
  makes no call to \<open>tofile\<close>, leaves the file system as it was, and returns \<open>False\<close>.
  When \<open>cv2.imencode\<close> raises instead, as OpenCV does for an extension it has no encoder
  for, the writer likewise writes nothing and leaves the file system as it was, but it
  returns no value: the exception propagates.
\<close>

theorem imwrite_unicode_encode_failure:
  assumes "default_ext (os_name E) path = (ext, p)"
  shows "(\<forall>buf. cv2_imencode E ext img (encoder_params params) = Inr (False, buf) \<longrightarrow>
            imwrite_unicode E path img params fs =
              \<lparr>calls = [Imencode ext img (encoder_params params)], ret = Inr False,
               fs_after = fs\<rparr>) \<and>
         (\<forall>e. cv2_imencode E ext img (encoder_params params) = Inl e \<longrightarrow>
            imwrite_unicode E path img params fs =
              \<lparr>calls = [Imencode ext img (encoder_params params)], ret = Inl e,
               fs_after = fs\<rparr>)"
  by (simp add: imwrite_unicode_unfold [OF assms])

text \<open>An encoder that reports failure: nothing is written and \<open>False\<close> is returned. The
  extension \<open>.xyz\<close>, which has no encoder: nothing is written and \<open>cv2.error\<close> is raised.\<close>

theorem imwrite_unicode_encode_failure_witness:
  "cv2_imencode (refusing_env Posix) (ustr ''.png'') (zeros [10, 10, 3]) [] = Inr (False, []) \<and>
   imwrite_unicode (refusing_env Posix) test_path (zeros [10, 10, 3]) None Map.empty =
     \<lparr>calls = [Imencode (ustr ''.png'') (zeros [10, 10, 3]) []], ret = Inr False,
      fs_after = Map.empty\<rparr> \<and>
   cv2_imencode (mem_env Posix) (ustr ''.xyz'') (zeros [10, 10, 3]) [] = Inl CvError \<and>
   imwrite_unicode (mem_env Posix) (ustr ''a.xyz'') (zeros [10, 10, 3]) None Map.empty =
     \<lparr>calls = [Imencode (ustr ''.xyz'') (zeros [10, 10, 3]) []], ret = Inl CvError,
      fs_after = Map.empty\<rparr>"
proof -
  have d1: "default_ext (os_name (refusing_env Posix)) test_path =
      (ustr ''.png'', test_path @ ustr ''.png'')"
    by (simp add: default_ext_test_path)
  have d2: "default_ext (os_name (mem_env Posix)) (ustr ''a.xyz'') = (ustr ''.xyz'', ustr ''a.xyz'')"
    by (simp add: default_ext_xyz)
  have e1: "cv2_imencode (refusing_env Posix) (ustr ''.png'') (zeros [10, 10, 3])
      (encoder_params None) = Inr (False, [])"
    by simp
  have e2: "cv2_imencode (mem_env Posix) (ustr ''.xyz'') (zeros [10, 10, 3])
      (encoder_params None) = Inl CvError"
    by (simp add: mem_env_eval ustr_def)
  show ?thesis
    using imwrite_unicode_encode_failure [OF d1, of "zeros [10, 10, 3]" None Map.empty]
      imwrite_unicode_encode_failure [OF d2, of "zeros [10, 10, 3]" None Map.empty] e1 e2
    by (simp add: encoder_params_def)
qed

text \<open>
  Claim C4 as stated names an unknown encoder extension as a case in which the writer
  returns \<open>False\<close>. For \<open>a.xyz\<close> the encode step raises \<open>cv2.error\<close>, and so does the
  writer: it returns no value.
\<close>

theorem imwrite_unicode_encode_failure_counterexample:
  "default_ext Posix (ustr ''a.xyz'') = (ustr ''.xyz'', ustr ''a.xyz'') \<and>
   ret (imwrite_unicode (mem_env Posix) (ustr ''a.xyz'') (zeros [10, 10, 3]) None Map.empty) =
     Inl CvError \<and>
   ret (imwrite_unicode (mem_env Posix) (ustr ''a.xyz'') (zeros [10, 10, 3]) None Map.empty) \<noteq>
     Inr False"
proof -
  have d: "default_ext (os_name (mem_env Posix)) (ustr ''a.xyz'') = (ustr ''.xyz'', ustr ''a.xyz'')"
    by (simp add: default_ext_xyz)
  have "ret (imwrite_unicode (mem_env Posix) (ustr ''a.xyz'') (zeros [10, 10, 3]) None Map.empty) =
      Inl CvError"
    by (simp add: imwrite_unicode_unfold [OF d]) (simp add: mem_env_eval ustr_def)
  then show ?thesis
    by (simp add: default_ext_xyz)
qed

subsection \<open>The reader\<close>

text \<open>
  Claim C5. When the byte-read primitive raises, for a missing or unreadable path, the
  reader raises that same exception: it is neither caught nor translated, the decoder is
  not called, and no sentinel is returned.
\<close>

theorem imread_unicode_propagates:
  assumes "np_fromfile E path fs = Inl e"
  shows "imread_unicode E path flags fs = \<lparr>calls = [Fromfile path], ret = Inl e, fs_after = fs\<rparr>"
  using assms by (simp add: imread_unicode_def)

theorem imread_unicode_propagates_witness:
  "np_fromfile (mem_env Posix) (ustr ''missing.png'') Map.empty = Inl FileNotFoundError \<and>
   imread_unicode (mem_env Posix) (ustr ''missing.png'') IMREAD_COLOR Map.empty =
     \<lparr>calls = [Fromfile (ustr ''missing.png'')], ret = Inl FileNotFoundError, fs_after = Map.empty\<rparr>"
proof -
  have h: "np_fromfile (mem_env Posix) (ustr ''missing.png'') Map.empty = Inl FileNotFoundError"
    by (simp add: mem_env_eval ustr_def)
  show ?thesis
    using imread_unicode_propagates [OF h, of IMREAD_COLOR] h by simp
qed

text \<open>
  Claim C6, as amended. When the file is read and \<open>cv2.imdecode\<close> answers its bytes with
  the sentinel \<open>None\<close>, the reader returns that sentinel and raises nothing. When
  \<open>cv2.imdecode\<close> raises instead, as OpenCV does on the empty buffer of a file of no
  bytes, the reader raises that exception.
\<close>

theorem imread_unicode_sentinel:
  assumes "np_fromfile E path fs = Inr buf"
  shows "(cv2_imdecode E buf flags = Inr None \<longrightarrow>
            imread_unicode E path flags fs =
              \<lparr>calls = [Fromfile path, Imdecode buf flags], ret = Inr None, fs_after = fs\<rparr>) \<and>
         (\<forall>e. cv2_imdecode E buf flags = Inl e \<longrightarrow>
            imread_unicode E path flags fs =
              \<lparr>calls = [Fromfile path, Imdecode buf flags], ret = Inl e, fs_after = fs\<rparr>)"
  using assms by (simp add: imread_unicode_def)

text \<open>A file of three bytes that are no image: the sentinel is returned.\<close>

theorem imread_unicode_sentinel_witness:
  "np_fromfile (mem_env Posix) (ustr ''x.png'') [ustr ''x.png'' \<mapsto> [1, 2, 3]] = Inr [1, 2, 3] \<and>
   cv2_imdecode (mem_env Posix) [1, 2, 3] IMREAD_COLOR = Inr None \<and>
   imread_unicode (mem_env Posix) (ustr ''x.png'') IMREAD_COLOR [ustr ''x.png'' \<mapsto> [1, 2, 3]] =
     \<lparr>calls = [Fromfile (ustr ''x.png''), Imdecode [1, 2, 3] IMREAD_COLOR], ret = Inr None,
      fs_after = [ustr ''x.png'' \<mapsto> [1, 2, 3]]\<rparr>"
proof -
  have h: "np_fromfile (mem_env Posix) (ustr ''x.png'') [ustr ''x.png'' \<mapsto> [1, 2, 3]] = Inr [1, 2, 3]"
    by (simp add: mem_env_def mem_fromfile_def ustr_def)
  have s: "cv2_imdecode (mem_env Posix) [1, 2, 3] IMREAD_COLOR = Inr None"
    by (simp add: mem_env_eval)
  show ?thesis
    using imread_unicode_sentinel [OF h, of IMREAD_COLOR] h s by simp
qed

text \<open>
  Claim C6 as stated, for every readable file whose bytes are no image, fails on a file
  of no bytes: the file is read, \<open>cv2.imdecode\<close> raises \<open>cv2.error\<close> on the empty buffer,
  and the reader raises it instead of returning the sentinel.
\<close>

theorem imread_unicode_sentinel_counterexample:
  "np_fromfile (mem_env Posix) (ustr ''empty.png'') [ustr ''empty.png'' \<mapsto> []] = Inr [] \<and>
   ret (imread_unicode (mem_env Posix) (ustr ''empty.png'') IMREAD_COLOR
          [ustr ''empty.png'' \<mapsto> []]) = Inl CvError \<and>
   ret (imread_unicode (mem_env Posix) (ustr ''empty.png'') IMREAD_COLOR
          [ustr ''empty.png'' \<mapsto> []]) \<noteq> Inr None"
  by (simp add: imread_unicode_def mem_env_def mem_fromfile_def raw_imdecode_def ustr_def)

subsection \<open>Writing, then reading\<close>

text \<open>
  Claim C7, as amended. Let the writer return \<open>True\<close> for \<open>path\<close> and \<open>img\<close>, let
  the file system give back on reading what was just written, and let the decoder, in the
  mode \<open>flags\<close>, turn what the encoder made of \<open>img\<close> into an image of the shape of
  \<open>img\<close>. Then the reader, on the effective path (\<open>path + ".png"\<close> when \<open>path\<close> has no
  extension, \<open>path\<close> otherwise), returns an image of the shape of \<open>img\<close>.
\<close>

theorem imwrite_imread_roundtrip:
  assumes written: "ret (imwrite_unicode E path img params fs) = Inr True"
    and after: "fs' = fs_after (imwrite_unicode E path img params fs)"
    and read_back: "\<And>buf. tofile E buf (snd (default_ext (os_name E) path)) fs = (None, fs') \<Longrightarrow>
        np_fromfile E (snd (default_ext (os_name E) path)) fs' = Inr buf"
    and codec: "\<And>buf. cv2_imencode E (fst (default_ext (os_name E) path)) img
          (encoder_params params) = Inr (True, buf) \<Longrightarrow>
        \<exists>img'. cv2_imdecode E buf flags = Inr (Some img') \<and> shape img' = shape img"
  shows "\<exists>img'. ret (imread_unicode E (snd (default_ext (os_name E) path)) flags fs') =
        Inr (Some img') \<and> shape img' = shape img"
proof -
  obtain ext p where d: "default_ext (os_name E) path = (ext, p)"
    by (cases "default_ext (os_name E) path")
  from written obtain buf where
    enc: "cv2_imencode E ext img (encoder_params params) = Inr (True, buf)"
    and wr: "fst (tofile E buf p fs) = None"
    by (auto simp: imwrite_unicode_unfold [OF d]
             split: sum.splits prod.splits option.splits if_splits)
  have "fs' = snd (tofile E buf p fs)"
    using after enc by (simp add: imwrite_unicode_unfold [OF d])
  with wr have "tofile E buf p fs = (None, fs')"
    by (simp add: prod_eq_iff)
  then have "np_fromfile E p fs' = Inr buf"
    using read_back [of buf] by (simp add: d)
  moreover from codec [of buf] enc obtain img' where
    "cv2_imdecode E buf flags = Inr (Some img')" "shape img' = shape img"
    by (auto simp: d)
  ultimately show ?thesis
    by (simp add: imread_unicode_def d)
qed

text \<open>The repository's test: an image of shape \<open>(10, 10, 3)\<close> at a path of Japanese
  characters comes back with the same shape.\<close>

theorem imwrite_imread_roundtrip_witness:
  "ret (imwrite_unicode (mem_env Posix) test_path (zeros [10, 10, 3]) None Map.empty) = Inr True \<and>
   (\<exists>img'. ret (imread_unicode (mem_env Posix) (test_path @ ustr ''.png'') IMREAD_COLOR
        (fs_after (imwrite_unicode (mem_env Posix) test_path (zeros [10, 10, 3]) None Map.empty))) =
      Inr (Some img') \<and> shape img' = [10, 10, 3])"
proof -
  let ?E = "mem_env Posix" and ?img = "zeros [10, 10, 3]"
  let ?fs' = "fs_after (imwrite_unicode ?E test_path ?img None Map.empty)"
  have d: "default_ext (os_name ?E) test_path = (ustr ''.png'', test_path @ ustr ''.png'')"
    by (simp add: default_ext_test_path)
  have w: "ret (imwrite_unicode ?E test_path ?img None Map.empty) = Inr True"
    by (simp add: imwrite_unicode_unfold [OF d]) (simp add: mem_env_eval test_path_def ustr_def)
  have rb: "\<And>buf. tofile ?E buf (snd (default_ext (os_name ?E) test_path)) Map.empty = (None, ?fs') \<Longrightarrow>
      np_fromfile ?E (snd (default_ext (os_name ?E) test_path)) ?fs' = Inr buf"
    by (rule mem_read_after_write)
  have cd: "\<And>buf. cv2_imencode ?E (fst (default_ext (os_name ?E) test_path)) ?img
        (encoder_params None) = Inr (True, buf) \<Longrightarrow>
      \<exists>img'. cv2_imdecode ?E buf IMREAD_COLOR = Inr (Some img') \<and> shape img' = shape ?img"
    by (auto simp: mem_env_eval split: if_splits)
  show ?thesis
    using imwrite_imread_roundtrip [OF w refl rb cd] w d
    by (simp add: zeros_def)
qed

text \<open>
  Claim C7 as stated, for every image, fails with the reader's default mode
  \<open>IMREAD_COLOR\<close>: a grayscale image of shape \<open>(2, 2)\<close> is written with success and
  read back with the shape \<open>(2, 2, 3)\<close>.
\<close>

theorem imwrite_imread_roundtrip_counterexample:
  "ret (imwrite_unicode (mem_env Posix) test_path (zeros [2, 2]) None Map.empty) = Inr True \<and>
   map_sum id (map_option shape)
     (ret (imread_unicode (mem_env Posix) (test_path @ ustr ''.png'') IMREAD_COLOR
        (fs_after (imwrite_unicode (mem_env Posix) test_path (zeros [2, 2]) None Map.empty)))) =
     Inr (Some [2, 2, 3]) \<and>
   shape (zeros [2, 2]) = [2, 2]"
proof -
  have d: "default_ext (os_name (mem_env Posix)) test_path = (ustr ''.png'', test_path @ ustr ''.png'')"
    by (simp add: default_ext_test_path)
  show ?thesis
    by (simp add: imwrite_unicode_unfold [OF d] imread_unicode_def)
       (simp add: mem_env_eval test_path_def ustr_def)
qed

subsection \<open>The encoder's parameters\<close>

text \<open>
  Claim C8. With \<open>params\<close> omitted or \<open>None\<close> the encoder is applied to the empty list,
  and with a list the caller supplies it is applied to that list, unchanged and in order:
  in both cases what the writer records, returns and leaves in the file system is what
  follows from that one application of \<open>cv2.imencode\<close> (and, after a successful encode,
  of \<open>tofile\<close> to the bytes it produced).
\<close>

theorem imwrite_unicode_params:
  "imwrite_unicode E path img None fs =
     (case cv2_imencode E (fst (default_ext (os_name E) path)) img [] of
        Inl e \<Rightarrow>
          \<lparr>calls = [Imencode (fst (default_ext (os_name E) path)) img []],
           ret = Inl e, fs_after = fs\<rparr>
      | Inr (result, buf) \<Rightarrow>
          if result then
            \<lparr>calls = [Imencode (fst (default_ext (os_name E) path)) img [],
                      Tofile buf (snd (default_ext (os_name E) path))],
             ret = (case fst (tofile E buf (snd (default_ext (os_name E) path)) fs) of
                      Some e \<Rightarrow> Inl e | None \<Rightarrow> Inr True),
             fs_after = snd (tofile E buf (snd (default_ext (os_name E) path)) fs)\<rparr>
          else
            \<lparr>calls = [Imencode (fst (default_ext (os_name E) path)) img []],
             ret = Inr False, fs_after = fs\<rparr>) \<and>
   imwrite_unicode E path img (Some ps) fs =
     (case cv2_imencode E (fst (default_ext (os_name E) path)) img ps of
        Inl e \<Rightarrow>
          \<lparr>calls = [Imencode (fst (default_ext (os_name E) path)) img ps],
           ret = Inl e, fs_after = fs\<rparr>
      | Inr (result, buf) \<Rightarrow>
          if result then
            \<lparr>calls = [Imencode (fst (default_ext (os_name E) path)) img ps,
                      Tofile buf (snd (default_ext (os_name E) path))],
             ret = (case fst (tofile E buf (snd (default_ext (os_name E) path)) fs) of
                      Some e \<Rightarrow> Inl e | None \<Rightarrow> Inr True),
             fs_after = snd (tofile E buf (snd (default_ext (os_name E) path)) fs)\<rparr>
          else
            \<lparr>calls = [Imencode (fst (default_ext (os_name E) path)) img ps],
             ret = Inr False, fs_after = fs\<rparr>)"
proof -
  obtain ext p where d: "default_ext (os_name E) path = (ext, p)"
    by (cases "default_ext (os_name E) path")
  show ?thesis
    by (simp add: imwrite_unicode_unfold [OF d] d encoder_params_def
             split: sum.splits prod.splits)
qed

text \<open>The repository's test with the parameters \<open>[cv2.IMWRITE_PNG_COMPRESSION, 9]\<close>, that
  is \<open>[16, 9]\<close>, and with none.\<close>

theorem imwrite_unicode_params_witness:
  "calls (imwrite_unicode (mem_env Posix) test_path (zeros [10, 10, 3]) (Some [16, 9]) Map.empty) =
     [Imencode (ustr ''.png'') (zeros [10, 10, 3]) [16, 9],
      Tofile (3 # 10 # 10 # 3 # replicate 300 0) (test_path @ ustr ''.png'')] \<and>
   calls (imwrite_unicode (mem_env Posix) test_path (zeros [10, 10, 3]) None Map.empty) =
     [Imencode (ustr ''.png'') (zeros [10, 10, 3]) [],
      Tofile (3 # 10 # 10 # 3 # replicate 300 0) (test_path @ ustr ''.png'')]"
  using imwrite_unicode_params [of "mem_env Posix" test_path "zeros [10, 10, 3]" Map.empty "[16, 9]"]
  by (simp add: default_ext_test_path raw_imencode_test_image)

subsection \<open>File names that begin with a dot\<close>

text \<open>
  Claim C10, as amended. Let the final component of \<open>path\<close>, the text after the last
  directory separator (\<open>/\<close> with \<open>posixpath\<close>; \<open>\\\<close> or \<open>/\<close> with \<open>ntpath\<close>) or the
  whole path when it has none, begin with a dot (or several) and hold no other dot, as in
  \<open>/tmp/.config\<close>. Then \<open>os.path.splitext\<close> gives an empty extension and the writer
  appends \<open>.png\<close>: it calls the encoder with \<open>.png\<close>, not with the text from the dot on,
  and after a successful encode it writes the encoded bytes to \<open>path + ".png"\<close> and
  returns \<open>True\<close> (or raises what the write raises); after a failed encode it writes
  nothing.
\<close>

theorem imwrite_unicode_dotfile:
  assumes "pre = [] \<or> is_sep (os_name E) (last pre)"
    and "0 < k"
    and "dot \<notin> set name"
    and "\<forall>c \<in> set name. \<not> is_sep (os_name E) c"
    and "path = pre @ replicate k dot @ name"
  shows "splitext (os_name E) path = (path, []) \<and>
     imwrite_unicode E path img params fs =
       (case cv2_imencode E (ustr ''.png'') img (encoder_params params) of
          Inl e \<Rightarrow>
            \<lparr>calls = [Imencode (ustr ''.png'') img (encoder_params params)],
             ret = Inl e, fs_after = fs\<rparr>
        | Inr (result, buf) \<Rightarrow>
            if result then
              \<lparr>calls = [Imencode (ustr ''.png'') img (encoder_params params),
                        Tofile buf (path @ ustr ''.png'')],
               ret = (case fst (tofile E buf (path @ ustr ''.png'') fs) of
                        Some e \<Rightarrow> Inl e | None \<Rightarrow> Inr True),
               fs_after = snd (tofile E buf (path @ ustr ''.png'') fs)\<rparr>
            else
              \<lparr>calls = [Imencode (ustr ''.png'') img (encoder_params params)],
               ret = Inr False, fs_after = fs\<rparr>)"
proof -
  have s: "splitext (os_name E) path = (path, [])"
    unfolding assms(5) using assms(1-4) by (rule splitext_leading_dots)
  then have d: "default_ext (os_name E) path = (ustr ''.png'', path @ ustr ''.png'')"
    by (simp add: default_ext_no_ext)
  show ?thesis
    using s by (simp add: imwrite_unicode_unfold [OF d])
qed

text \<open>Writing to \<open>/tmp/.config\<close> creates \<open>/tmp/.config.png\<close>, encoded for \<open>.png\<close>, and no
  file at \<open>/tmp/.config\<close>.\<close>

theorem imwrite_unicode_dotfile_witness:
  "splitext Posix (ustr ''/tmp/.config'') = (ustr ''/tmp/.config'', []) \<and>
   imwrite_unicode (mem_env Posix) (ustr ''/tmp/.config'') (zeros [10, 10, 3]) None Map.empty =
     \<lparr>calls = [Imencode (ustr ''.png'') (zeros [10, 10, 3]) [],
               Tofile (3 # 10 # 10 # 3 # replicate 300 0) (ustr ''/tmp/.config.png'')],
      ret = Inr True,
      fs_after = [ustr ''/tmp/.config.png'' \<mapsto> 3 # 10 # 10 # 3 # replicate 300 0]\<rparr> \<and>
   fs_after (imwrite_unicode (mem_env Posix) (ustr ''/tmp/.config'') (zeros [10, 10, 3]) None
       Map.empty) (ustr ''/tmp/.config'') = None"
proof -
  have a: "ustr ''/tmp/'' = [] \<or> is_sep (os_name (mem_env Posix)) (last (ustr ''/tmp/''))"
    by (simp add: ustr_def slash_def)
  have b: "dot \<notin> set (ustr ''config'')"
    by (simp add: ustr_def dot_def)
  have c: "\<forall>c \<in> set (ustr ''config''). \<not> is_sep (os_name (mem_env Posix)) c"
    by (simp add: ustr_def slash_def)
  have p: "ustr ''/tmp/.config'' = ustr ''/tmp/'' @ replicate 1 dot @ ustr ''config''"
    by (simp add: ustr_def dot_def)
  have q: "ustr ''/tmp/.config'' @ ustr ''.png'' = ustr ''/tmp/.config.png''"
    by (simp add: ustr_def)
  have w: "tofile (mem_env Posix) (3 # 10 # 10 # 3 # replicate 300 0) (ustr ''/tmp/.config.png'')
      Map.empty = (None, [ustr ''/tmp/.config.png'' \<mapsto> 3 # 10 # 10 # 3 # replicate 300 0])"
    by (simp add: mem_env_def mem_tofile_def ustr_def)
  have n: "ustr ''/tmp/.config.png'' \<noteq> ustr ''/tmp/.config''"
    by (simp add: ustr_def)
  show ?thesis
    using imwrite_unicode_dotfile [OF a _ b c p, of "zeros [10, 10, 3]" None Map.empty]
    by (simp add: raw_imencode_test_image q w n not_sym [OF n] encoder_params_def)
qed

text \<open>
  Claim C10 as stated, for every path whose final component is a leading dot and a name,
  fails with \<open>ntpath\<close> on a path relative to a drive. The final component of
  \<open>C:.config\<close> is \<open>.config\<close>, but \<open>ntpath.splitext\<close> looks for the start of the
  component after the last \<open>\\\<close> or \<open>/\<close> only, finds the \<open>C\<close> before the dot, and
  returns \<open>("C:", ".config")\<close>. The writer appends nothing and calls the encoder with
  \<open>.config\<close>.
\<close>

theorem imwrite_unicode_dotfile_counterexample:
  "splitext Nt drive_path = (ustr ''C:'', ustr ''.config'') \<and>
   default_ext Nt drive_path = (ustr ''.config'', drive_path) \<and>
   imwrite_unicode (mem_env Nt) drive_path (zeros [10, 10, 3]) None Map.empty =
     \<lparr>calls = [Imencode (ustr ''.config'') (zeros [10, 10, 3]) []], ret = Inl CvError,
      fs_after = Map.empty\<rparr>"
proof -
  have s: "splitext Nt drive_path = (ustr ''C:'', ustr ''.config'')"
    by (simp add: drive_path_def splitext_eval)
  then have d: "default_ext Nt drive_path = (ustr ''.config'', drive_path)"
    by (simp add: default_ext_def ustr_def)
  then have d': "default_ext (os_name (mem_env Nt)) drive_path = (ustr ''.config'', drive_path)"
    by simp
  have "imwrite_unicode (mem_env Nt) drive_path (zeros [10, 10, 3]) None Map.empty =
     \<lparr>calls = [Imencode (ustr ''.config'') (zeros [10, 10, 3]) []], ret = Inl CvError,
      fs_after = Map.empty\<rparr>"
    by (simp add: imwrite_unicode_unfold [OF d']) (simp add: mem_env_eval ustr_def)
  with s d show ?thesis by simp
qed

end
